theory Spec2Isabelle
  imports Main "HOL-Library.AList" "HOL-Library.Sublist"
begin

section \<open>The series routing engine of routing/route_series.py\<close>

text \<open>
  The engine is a Python module that works on a spool directory. Its functions are
  embedded as HOL functions over an explicit world (the filesystem, the telemetry
  sink and the webhook sink); every exception of the source is a value. Calls to the
  logger are not modelled: they have no effect on the state the properties speak of.
\<close>

subsection \<open>Python errors and outcomes\<close>

datatype py_error =
    IndexError | KeyError | TypeError | UnboundLocalError
  | FileNotFoundError | FileExistsError | IsADirectoryError | SameFileError | RuleError

text \<open>A call either returns a value or raises; the world it leaves is kept beside it.\<close>

datatype 'a outcome = Returned 'a | Raised py_error

subsection \<open>Constants of common.constants\<close>

text \<open>
  Modelled from the spec: common/constants.py is not among the sources. The values are
  the ones the spec names (sections 3 and 6): the extensions \<open>.dcm\<close>, \<open>.tags\<close>,
  \<open>.lock\<close>, \<open>.error\<close>, the separator \<open>#\<close>, the descriptor \<open>task.json\<close>, the
  actions and the trigger scopes. All of them are Python strings.
\<close>

definition LOCK :: string where [simp]: "LOCK = ''.lock''"
definition DCM :: string where [simp]: "DCM = ''.dcm''"
definition TAGS :: string where [simp]: "TAGS = ''.tags''"
definition ERROR :: string where [simp]: "ERROR = ''.error''"
definition SEPARATOR :: string where [simp]: "SEPARATOR = ''#''"
definition TASKFILE :: string where [simp]: "TASKFILE = ''task.json''"

definition ROUTE :: string where [simp]: "ROUTE = ''route''"
definition PROCESS :: string where [simp]: "PROCESS = ''process''"
definition BOTH :: string where [simp]: "BOTH = ''both''"
definition NOTIFICATION :: string where [simp]: "NOTIFICATION = ''notification''"
definition DISCARD :: string where [simp]: "DISCARD = ''discard''"

definition SERIES :: string where [simp]: "SERIES = ''series''"
definition STUDY :: string where [simp]: "STUDY = ''study''"

definition RECEPTION :: string where [simp]: "RECEPTION = ''RECEPTION''"

subsection \<open>Configuration\<close>

text \<open>
  A rule is a dict read from the configuration; the engine reads seven of its keys, each
  with \<open>.get(key, default)\<close>, so a field is absent (\<open>None\<close>) or holds a string.
\<close>

record rule =
  r_disabled :: "string option"
  r_rule :: "string option"
  r_action :: "string option"
  r_action_trigger :: "string option"
  r_target :: "string option"
  r_notification_webhook :: "string option"
  r_notification_payload :: "string option"

definition get_default :: "'a option \<Rightarrow> 'a \<Rightarrow> 'a" where
  "get_default v d = (case v of None \<Rightarrow> d | Some x \<Rightarrow> x)"

text \<open>
  \<open>config.mercure\<close>: the folders (strings), the rules table in configuration order and
  the keys of the targets table.
\<close>

record config =
  incoming_folder :: string
  outgoing_folder :: string
  processing_folder :: string
  discard_folder :: string
  error_folder :: string
  rules :: "(string \<times> rule) list"
  targets :: "string list"

type_synonym tags = "(string \<times> string) list"

subsection \<open>The world: filesystem, telemetry, webhooks\<close>

datatype node = Dir | File

datatype s_events = S_REGISTERED | S_DISCARD | S_MOVE | S_ROUTE | S_ERROR

text \<open>
  Every \<open>monitor.send_event\<close> of the module is sent on the channel PROCESSING with
  severity ERROR, so \<open>Event\<close> keeps the message only.
\<close>

datatype event =
    Event string
  | SeriesEvent s_events string nat string string
  | RegisterSeries tags
  | SeriesSequenceData string string

record world =
  fs :: "(string list \<times> node) list"
  events :: "event list"
  webhooks :: "(string \<times> string \<times> string) list"
  uuid_count :: nat

text \<open>
  What the module reads from its surroundings. The rule evaluator
  (\<open>rule_evaluation.parse_rule\<close>, which may raise) and \<open>uuid.uuid1\<close>, the n-th
  call of which yields \<open>uuid1 n\<close>, are code of other modules. The files of the model
  have no contents, so what the contents decide is a parameter as well: the result of
  \<open>json.load\<close> on a file (\<open>None\<close> when it raises), and the result of
  \<open>parse_ascconv\<close> on a file (\<open>None\<close> when it raises). \<open>parse_ascconv\<close> and
  \<open>get_ascconv\<close> are lines 24-65 of the module itself: they search the bytes of the
  payload for the ASCCONV block and build a nested dict from its lines. The engine calls
  them once, inside a \<open>try\<close> that catches everything, and only passes the result
  on to telemetry.
\<close>

record env =
  parse_rule :: "string \<Rightarrow> tags \<Rightarrow> py_error + bool"
  json_load :: "string \<Rightarrow> tags option"
  parse_ascconv :: "string \<Rightarrow> string option"
  uuid1 :: "nat \<Rightarrow> string"

definition send_event :: "string \<Rightarrow> world \<Rightarrow> world" where
  "send_event msg w = w\<lparr>events := events w @ [Event msg]\<rparr>"

definition send_series_event ::
  "s_events \<Rightarrow> string \<Rightarrow> nat \<Rightarrow> string \<Rightarrow> string \<Rightarrow> world \<Rightarrow> world" where
  "send_series_event kind uid n tgt info w =
     w\<lparr>events := events w @ [SeriesEvent kind uid n tgt info]\<rparr>"

text \<open>\<open>notification.send_webhook(url, payload, event)\<close>: fire and forget.\<close>

definition send_webhook :: "string \<Rightarrow> string \<Rightarrow> string \<Rightarrow> world \<Rightarrow> world" where
  "send_webhook url payload ev w = w\<lparr>webhooks := webhooks w @ [(url, payload, ev)]\<rparr>"

subsection \<open>Paths and the filesystem\<close>

text \<open>
  The module builds paths by string concatenation; the operating system reads a path as
  its components, so that \<open>a//b\<close> and \<open>a/b\<close> name the same file. A path is looked
  up by its list of non-empty components; paths are taken relative to one root.
\<close>

primrec split_slash :: "string \<Rightarrow> string list" where
  "split_slash [] = [[]]"
| "split_slash (c # cs) =
     (if c = CHR ''/'' then [] # split_slash cs
      else (case split_slash cs of [] \<Rightarrow> [[c]] | x # xs \<Rightarrow> (c # x) # xs))"

definition components :: "string \<Rightarrow> string list" where
  "components p = filter (\<lambda>x. x \<noteq> []) (split_slash p)"

definition lookup :: "world \<Rightarrow> string \<Rightarrow> node option" where
  "lookup w p = map_of (fs w) (components p)"

definition path_exists :: "world \<Rightarrow> string \<Rightarrow> bool" where
  "path_exists w p = (lookup w p \<noteq> None)"

text \<open>The directory a path lies in exists: it is the root, or a recorded directory.\<close>

definition parent_is_dir :: "world \<Rightarrow> string \<Rightarrow> bool" where
  "parent_is_dir w p =
     (butlast (components p) = [] \<or> map_of (fs w) (butlast (components p)) = Some Dir)"

definition set_node :: "string \<Rightarrow> node \<Rightarrow> world \<Rightarrow> world" where
  "set_node p n w = w\<lparr>fs := AList.update (components p) n (fs w)\<rparr>"

definition del_node :: "string \<Rightarrow> world \<Rightarrow> world" where
  "del_node p w = w\<lparr>fs := AList.delete (components p) (fs w)\<rparr>"

text \<open>\<open>os.mkdir\<close>: fails when the path exists or its parent directory does not.\<close>

definition os_mkdir :: "string \<Rightarrow> world \<Rightarrow> py_error + world" where
  "os_mkdir p w =
     (if path_exists w p then Inl FileExistsError
      else if \<not> parent_is_dir w p then Inl FileNotFoundError
      else Inr (set_node p Dir w))"

text \<open>Opening a file for writing creates or truncates it.\<close>

definition write_file :: "string \<Rightarrow> world \<Rightarrow> py_error + world" where
  "write_file p w =
     (if lookup w p = Some Dir then Inl IsADirectoryError
      else if \<not> parent_is_dir w p then Inl FileNotFoundError
      else Inr (set_node p File w))"

text \<open>
  \<open>shutil.copy\<close> and \<open>shutil.move\<close> on a regular file and a destination file path.
  Copying a file onto itself raises \<open>SameFileError\<close>; moving it onto itself does
  nothing. A source that is a directory, and a destination that names a directory, are
  made to fail: the engine transfers regular files to file paths.
\<close>

definition shutil_copy :: "string \<Rightarrow> string \<Rightarrow> world \<Rightarrow> py_error + world" where
  "shutil_copy src dst w =
     (case lookup w src of
        None \<Rightarrow> Inl FileNotFoundError
      | Some Dir \<Rightarrow> Inl IsADirectoryError
      | Some File \<Rightarrow>
          if components src = components dst then Inl SameFileError else write_file dst w)"

definition shutil_move :: "string \<Rightarrow> string \<Rightarrow> world \<Rightarrow> py_error + world" where
  "shutil_move src dst w =
     (case lookup w src of
        None \<Rightarrow> Inl FileNotFoundError
      | Some Dir \<Rightarrow> Inl IsADirectoryError
      | Some File \<Rightarrow>
          if components src = components dst then Inr w
          else (case write_file dst w of
                  Inl err \<Rightarrow> Inl err
                | Inr w1 \<Rightarrow> Inr (del_node src w1)))"

definition os_remove :: "string \<Rightarrow> world \<Rightarrow> py_error + world" where
  "os_remove p w =
     (case lookup w p of
        None \<Rightarrow> Inl FileNotFoundError
      | Some Dir \<Rightarrow> Inl IsADirectoryError
      | Some File \<Rightarrow> Inr (del_node p w))"

text \<open>
  \<open>os.scandir\<close>: the entries of a directory, each with its name and whether it is a
  directory, in the order the filesystem lists them.
\<close>

definition os_scandir :: "string \<Rightarrow> world \<Rightarrow> py_error + (string \<times> bool) list" where
  "os_scandir d w =
     (if components d \<noteq> [] \<and> lookup w d \<noteq> Some Dir then Inl FileNotFoundError
      else Inr (map (\<lambda>(cs, n). (last cs, n = Dir))
                 (filter (\<lambda>(cs, n). cs \<noteq> [] \<and> butlast cs = components d)
                    (AList.clearjunk (fs w)))))"

text \<open>
  Modelled from the spec: common/helper.py (\<open>FileLock\<close>) is not among the sources.
  Section 4.A: acquisition creates the lock file and fails if it cannot be created,
  including because it already exists; release removes the file.
\<close>

definition FileLock :: "string \<Rightarrow> world \<Rightarrow> py_error + world" where
  "FileLock p w =
     (if path_exists w p then Inl FileExistsError
      else if \<not> parent_is_dir w p then Inl FileNotFoundError
      else Inr (set_node p File w))"

definition lock_free :: "string \<Rightarrow> world \<Rightarrow> py_error + world" where
  "lock_free p w = os_remove p w"

text \<open>
  Modelled from the spec: routing/generate_taskfile.py is not among the sources.
  Section 4.D, step 4: the stager writes the descriptor \<open>task.json\<close> into the staging
  folder; \<open>create_series_task_processing\<close> answers whether it could.
\<close>

definition create_study_task :: "string \<Rightarrow> string \<Rightarrow> string \<Rightarrow> tags \<Rightarrow> world \<Rightarrow> world" where
  "create_study_task folder_name current_rule study_UID tags_list w =
     (case write_file (folder_name @ ''/'' @ TASKFILE) w of Inl err \<Rightarrow> w | Inr w1 \<Rightarrow> w1)"

definition create_series_task_processing ::
  "string \<Rightarrow> string \<Rightarrow> string \<Rightarrow> tags \<Rightarrow> world \<Rightarrow> bool \<times> world" where
  "create_series_task_processing target_folder current_rule series_UID tags_list w =
     (case write_file (target_folder @ TASKFILE) w of
        Inl err \<Rightarrow> (False, w)
      | Inr w1 \<Rightarrow> (True, w1))"

text \<open>\<open>str(uuid.uuid1())\<close>: the next name of the supply.\<close>

definition uuid_call :: "env \<Rightarrow> world \<Rightarrow> string \<times> world" where
  "uuid_call e w = (uuid1 e (uuid_count w), w\<lparr>uuid_count := Suc (uuid_count w)\<rparr>)"

subsection \<open>Python operators the module applies\<close>

text \<open>
  \<open>a / b\<close> on two strings: \<open>str\<close> has no division, so the expression raises
  \<open>TypeError\<close> whatever the strings are. \<open>len(b)\<close> on a boolean raises
  \<open>TypeError\<close> as well.
\<close>

definition str_truediv :: "string \<Rightarrow> string \<Rightarrow> py_error + string" where
  "str_truediv a b = Inl TypeError"

definition len_bool :: "bool \<Rightarrow> py_error + nat" where
  "len_bool b = Inl TypeError"

definition endswith :: "string \<Rightarrow> string \<Rightarrow> bool" where
  "endswith s suf = (drop (length s - length suf) s = suf)"

definition startswith :: "string \<Rightarrow> string \<Rightarrow> bool" where
  "startswith s pre = (take (length pre) s = pre)"

subsection \<open>The rule matcher\<close>

text \<open>
  \<open>get_triggered_rules\<close> (lines 151-174). The loop runs over the keys of the rules
  table in order; its body is inside \<open>try\<close>, so a failing lookup or a raising
  predicate reports \<open>Invalid rule\<close> and goes on. \<open>triggered_rules\<close> is a dict from
  the rule name to itself: an association list updated in place.
\<close>

fun get_triggered_rules_loop ::
  "env \<Rightarrow> config \<Rightarrow> tags \<Rightarrow> string list \<Rightarrow> (string \<times> string) list \<Rightarrow> world
     \<Rightarrow> ((string \<times> string) list \<times> string) \<times> world" where
  "get_triggered_rules_loop e cfg tagList [] triggered_rules w = ((triggered_rules, ''''), w)"
| "get_triggered_rules_loop e cfg tagList (current_rule # rest) triggered_rules w =
     (case map_of (rules cfg) current_rule of
        None \<Rightarrow>
          get_triggered_rules_loop e cfg tagList rest triggered_rules
            (send_event (''Invalid rule: '' @ current_rule) w)
      | Some r \<Rightarrow>
          if get_default (r_disabled r) ''False'' = ''True''
          then get_triggered_rules_loop e cfg tagList rest triggered_rules w
          else (case parse_rule e (get_default (r_rule r) ''False'') tagList of
                  Inl err \<Rightarrow>
                    get_triggered_rules_loop e cfg tagList rest triggered_rules
                      (send_event (''Invalid rule: '' @ current_rule) w)
                | Inr False \<Rightarrow> get_triggered_rules_loop e cfg tagList rest triggered_rules w
                | Inr True \<Rightarrow>
                    if get_default (r_action r) '''' = DISCARD
                    then ((AList.update current_rule current_rule triggered_rules,
                           current_rule), w)
                    else get_triggered_rules_loop e cfg tagList rest
                           (AList.update current_rule current_rule triggered_rules) w))"

definition get_triggered_rules ::
  "env \<Rightarrow> config \<Rightarrow> tags \<Rightarrow> world \<Rightarrow> ((string \<times> string) list \<times> string) \<times> world" where
  "get_triggered_rules e cfg tagList w =
     get_triggered_rules_loop e cfg tagList (map fst (rules cfg)) [] w"

subsection \<open>Transferring and removing files\<close>

text \<open>
  The body of the \<open>try\<close> that the three transfer loops share: the payload, then the
  sidecar. It yields the error raised, if any, and the world at that point.
\<close>

definition transfer_pair ::
  "(string \<Rightarrow> string \<Rightarrow> world \<Rightarrow> py_error + world) \<Rightarrow> string \<Rightarrow> string \<Rightarrow> string \<Rightarrow> world
     \<Rightarrow> py_error option \<times> world" where
  "transfer_pair operation source_folder target_folder entry w =
     (case operation (source_folder @ entry @ DCM) (target_folder @ entry @ DCM) w of
        Inl err \<Rightarrow> (Some err, w)
      | Inr w1 \<Rightarrow>
          (case operation (source_folder @ entry @ TAGS) (target_folder @ entry @ TAGS) w1 of
             Inl err \<Rightarrow> (Some err, w1)
           | Inr w2 \<Rightarrow> (None, w2)))"

text \<open>\<open>push_files\<close> (lines 452-476): the handler of the loop returns \<open>False\<close>.\<close>

fun push_files_loop ::
  "(string \<Rightarrow> string \<Rightarrow> world \<Rightarrow> py_error + world) \<Rightarrow> string \<Rightarrow> string \<Rightarrow> string list \<Rightarrow> world
     \<Rightarrow> bool \<times> world" where
  "push_files_loop operation source_folder target_folder [] w = (True, w)"
| "push_files_loop operation source_folder target_folder (entry # rest) w =
     (case transfer_pair operation source_folder target_folder entry w of
        (Some err, w1) \<Rightarrow>
          (False, send_event (''Problem while pushing file to outgoing '' @ entry) w1)
      | (None, w1) \<Rightarrow> push_files_loop operation source_folder target_folder rest w1)"

definition push_files :: "config \<Rightarrow> string list \<Rightarrow> string \<Rightarrow> bool \<Rightarrow> world \<Rightarrow> bool \<times> world" where
  "push_files cfg file_list target_path copy_files w =
     (let operation = (if copy_files = False then shutil_move else shutil_copy);
          source_folder = incoming_folder cfg @ ''/'';
          target_folder = target_path @ ''/''
      in push_files_loop operation source_folder target_folder file_list w)"

text \<open>\<open>remove_series\<close> (lines 479-488): the sidecar first, then the payload.\<close>

fun remove_series_loop :: "string \<Rightarrow> string list \<Rightarrow> world \<Rightarrow> world" where
  "remove_series_loop source_folder [] w = w"
| "remove_series_loop source_folder (entry # rest) w =
     (case os_remove (source_folder @ entry @ TAGS) w of
        Inl err \<Rightarrow>
          remove_series_loop source_folder rest
            (send_event (''Error while removing file '' @ entry) w)
      | Inr w1 \<Rightarrow>
          (case os_remove (source_folder @ entry @ DCM) w1 of
             Inl err \<Rightarrow>
               remove_series_loop source_folder rest
                 (send_event (''Error while removing file '' @ entry) w1)
           | Inr w2 \<Rightarrow> remove_series_loop source_folder rest w2))"

definition remove_series :: "config \<Rightarrow> string list \<Rightarrow> world \<Rightarrow> world" where
  "remove_series cfg file_list w = remove_series_loop (incoming_folder cfg @ ''/'') file_list w"

subsection \<open>The discard path\<close>

text \<open>The loop of lines 213-221: a failing pair is reported and the loop goes on.\<close>

fun push_series_discard_files :: "string \<Rightarrow> string \<Rightarrow> string list \<Rightarrow> world \<Rightarrow> world" where
  "push_series_discard_files source_folder discard_dir [] w = w"
| "push_series_discard_files source_folder discard_dir (entry # rest) w =
     (case transfer_pair shutil_move source_folder discard_dir entry w of
        (Some err, w1) \<Rightarrow>
          push_series_discard_files source_folder discard_dir rest
            (send_event (''Problem during discarding file '' @ entry) w1)
      | (None, w1) \<Rightarrow> push_series_discard_files source_folder discard_dir rest w1)"

text \<open>\<open>push_series_discard\<close> (lines 177-231). Every exception is caught inside.\<close>

definition push_series_discard ::
  "env \<Rightarrow> config \<Rightarrow> string list \<Rightarrow> string \<Rightarrow> string \<Rightarrow> world \<Rightarrow> world" where
  "push_series_discard e cfg fileList series_UID discard_series w =
     (case uuid_call e w of
        (u, w0) \<Rightarrow>
          let discard_path = discard_folder cfg @ ''/'' @ u;
              discard_dir = discard_path @ ''/'';
              source_folder = incoming_folder cfg @ ''/''
          in (case os_mkdir discard_path w0 of
                Inl err \<Rightarrow> send_event (''Unable to create discard folder '' @ discard_path) w0
              | Inr w1 \<Rightarrow>
                  if \<not> path_exists w1 discard_path
                  then send_event (''Creating discard folder not possible '' @ discard_path) w1
                  else
                    let lock_file = discard_path @ ''/'' @ LOCK
                    in (case FileLock lock_file w1 of
                          Inl err \<Rightarrow>
                            send_event (''Unable to create lock file in discard folder ''
                                         @ discard_path @ ''/'' @ LOCK) w1
                        | Inr w2 \<Rightarrow>
                            let info_text =
                                  (if discard_series \<noteq> []
                                   then ''Discard by rule '' @ discard_series else []);
                                w3 = send_series_event S_DISCARD series_UID (length fileList)
                                       [] info_text w2;
                                w4 = push_series_discard_files source_folder discard_dir
                                       fileList w3;
                                w5 = send_series_event S_MOVE series_UID (length fileList)
                                       discard_path [] w4
                            in (case lock_free lock_file w5 of
                                  Inl err \<Rightarrow>
                                    send_event (''Unable to remove lock file '' @ lock_file) w5
                                | Inr w6 \<Rightarrow> w6))))"

subsection \<open>Study-level staging\<close>

text \<open>
  \<open>push_series_studylevel\<close> (lines 234-270). \<open>folder_name\<close> is the string
  \<open>study_UID + SEPARATOR + current_rule\<close>: no parent folder is put before it. The lock
  path is \<open>Path(folder_name / mercure_names.LOCK)\<close>: the division of two strings raises
  inside the \<open>try\<close>, and the handler formats \<open>lock_file\<close>, a local that has no value
  yet, so \<open>UnboundLocalError\<close> leaves the function. The branch after a lock path is
  kept as the source has it. \<open>lock.free()\<close> on line 270 stands outside any \<open>try\<close>.
\<close>

fun push_series_studylevel_loop ::
  "config \<Rightarrow> (string \<times> string) list \<Rightarrow> string list \<Rightarrow> string list \<Rightarrow> string \<Rightarrow> tags \<Rightarrow> world
     \<Rightarrow> unit outcome \<times> world" where
  "push_series_studylevel_loop cfg triggered_rules [] file_list series_UID tags_list w =
     (Returned (), w)"
| "push_series_studylevel_loop cfg triggered_rules (current_rule # rest) file_list series_UID
     tags_list w =
     (case map_of (rules cfg) current_rule of
        None \<Rightarrow> (Raised KeyError, w)
      | Some r \<Rightarrow>
          if get_default (r_action_trigger r) SERIES = STUDY
          then
            (case map_of tags_list ''StudyInstanceUID'' of
               None \<Rightarrow> (Raised KeyError, w)
             | Some study_UID \<Rightarrow>
                 let folder_name = study_UID @ SEPARATOR @ current_rule
                 in (case (if \<not> path_exists w folder_name
                           then (case os_mkdir folder_name w of
                                   Inl err \<Rightarrow> Inl err
                                 | Inr w1 \<Rightarrow> Inr (True, w1))
                           else Inr (False, w)) of
                       Inl err \<Rightarrow>
                         push_series_studylevel_loop cfg triggered_rules rest file_list
                           series_UID tags_list
                           (send_event (''Unable to create folder '' @ folder_name) w)
                     | Inr (first_series, w1) \<Rightarrow>
                         (case str_truediv folder_name LOCK of
                            Inl err \<Rightarrow> (Raised UnboundLocalError, w1)
                          | Inr lock_file \<Rightarrow>
                              (case FileLock lock_file w1 of
                                 Inl err \<Rightarrow>
                                   push_series_studylevel_loop cfg triggered_rules rest
                                     file_list series_UID tags_list
                                     (send_event (''Unable to create lock file '' @ lock_file) w1)
                               | Inr w2 \<Rightarrow>
                                   let w3 = (if first_series
                                             then create_study_task folder_name current_rule
                                                    study_UID tags_list w2
                                             else w2)
                                   in (case push_files cfg file_list folder_name
                                              (length triggered_rules > 1) w3 of
                                         (pushed, w4) \<Rightarrow>
                                           (case lock_free lock_file w4 of
                                              Inl err \<Rightarrow> (Raised err, w4)
                                            | Inr w5 \<Rightarrow>
                                                push_series_studylevel_loop cfg triggered_rules
                                                  rest file_list series_UID tags_list w5))))))
          else push_series_studylevel_loop cfg triggered_rules rest file_list series_UID
                 tags_list w)"

definition push_series_studylevel ::
  "config \<Rightarrow> (string \<times> string) list \<Rightarrow> string list \<Rightarrow> string \<Rightarrow> tags \<Rightarrow> world
     \<Rightarrow> unit outcome \<times> world" where
  "push_series_studylevel cfg triggered_rules file_list series_UID tags_list w =
     push_series_studylevel_loop cfg triggered_rules (map fst triggered_rules) file_list
       series_UID tags_list w"

subsection \<open>Series-level dispatch\<close>

text \<open>
  \<open>trigger_serieslevel_notification_reception\<close> (lines 280-283): the two lookups of
  the rule raise \<open>KeyError\<close> when the rule is not configured.
\<close>

definition trigger_serieslevel_notification_reception ::
  "config \<Rightarrow> string \<Rightarrow> tags \<Rightarrow> world \<Rightarrow> unit outcome \<times> world" where
  "trigger_serieslevel_notification_reception cfg current_rule tags_list w =
     (case map_of (rules cfg) current_rule of
        None \<Rightarrow> (Raised KeyError, w)
      | Some r \<Rightarrow>
          (Returned (),
           send_webhook (get_default (r_notification_webhook r) [])
             (get_default (r_notification_payload r) []) RECEPTION w))"

text \<open>
  The files loop of \<open>push_serieslevel_outgoing\<close> (lines 431-439): a failing pair is
  reported and the loop goes on.
\<close>

fun push_serieslevel_outgoing_files ::
  "(string \<Rightarrow> string \<Rightarrow> world \<Rightarrow> py_error + world) \<Rightarrow> string \<Rightarrow> string \<Rightarrow> string list \<Rightarrow> world
     \<Rightarrow> world" where
  "push_serieslevel_outgoing_files operation source_folder target_folder [] w = w"
| "push_serieslevel_outgoing_files operation source_folder target_folder (entry # rest) w =
     (case transfer_pair operation source_folder target_folder entry w of
        (Some err, w1) \<Rightarrow>
          push_serieslevel_outgoing_files operation source_folder target_folder rest
            (send_event (''Problem while pushing file to outgoing '' @ entry) w1)
      | (None, w1) \<Rightarrow>
          push_serieslevel_outgoing_files operation source_folder target_folder rest w1)"

text \<open>
  The loop over the selected targets of \<open>push_serieslevel_outgoing\<close> (lines 381-449).
  An unknown target is skipped (\<open>continue\<close>); a folder that cannot be created ends the
  function (\<open>return\<close>). The lock path is again \<open>Path(folder_name / mercure_names.LOCK)\<close>
  inside a \<open>try\<close> whose handler formats the unassigned \<open>lock_file\<close>.
\<close>

fun push_serieslevel_outgoing_loop ::
  "env \<Rightarrow> config \<Rightarrow> bool \<Rightarrow> string list \<Rightarrow> string \<Rightarrow> (string \<times> string) list \<Rightarrow> world
     \<Rightarrow> unit outcome \<times> world" where
  "push_serieslevel_outgoing_loop e cfg move_operation file_list series_UID [] w =
     (Returned (), w)"
| "push_serieslevel_outgoing_loop e cfg move_operation file_list series_UID
     ((target, rule_name) # rest) w =
     (if target \<notin> set (targets cfg)
      then push_serieslevel_outgoing_loop e cfg move_operation file_list series_UID rest
             (send_event (''Invalid target selected '' @ target) w)
      else
        (case uuid_call e w of
           (u, w0) \<Rightarrow>
             let source_folder = incoming_folder cfg @ ''/'';
                 folder_name = outgoing_folder cfg @ ''/'' @ u;
                 target_folder = folder_name @ ''/''
             in (case os_mkdir folder_name w0 of
                   Inl err \<Rightarrow>
                     (Returned (),
                      send_event (''Unable to create outgoing folder '' @ folder_name) w0)
                 | Inr w1 \<Rightarrow>
                     if \<not> path_exists w1 folder_name
                     then (Returned (),
                           send_event (''Creating folder not possible '' @ folder_name) w1)
                     else
                       (case str_truediv folder_name LOCK of
                          Inl err \<Rightarrow> (Raised UnboundLocalError, w1)
                        | Inr lock_file \<Rightarrow>
                            (case FileLock lock_file w1 of
                               Inl err \<Rightarrow>
                                 (Returned (),
                                  send_event (''Unable to create lock file '' @ lock_file) w1)
                             | Inr w2 \<Rightarrow>
                                 let task_filename = target_folder @ TASKFILE
                                 in (case write_file task_filename w2 of
                                       Inl err \<Rightarrow>
                                         push_serieslevel_outgoing_loop e cfg move_operation
                                           file_list series_UID rest
                                           (send_event (''Unable to create task file ''
                                                        @ task_filename) w2)
                                     | Inr w3 \<Rightarrow>
                                         let w4 = send_series_event S_ROUTE series_UID
                                                    (length file_list) target rule_name w3;
                                             operation = (if move_operation then shutil_move
                                                          else shutil_copy);
                                             w5 = push_serieslevel_outgoing_files operation
                                                    source_folder target_folder file_list w4;
                                             w6 = send_series_event S_MOVE series_UID
                                                    (length file_list) folder_name [] w5
                                         in (case lock_free lock_file w6 of
                                               Inl err \<Rightarrow>
                                                 (Returned (),
                                                  send_event (''Unable to remove lock file ''
                                                              @ lock_file) w6)
                                             | Inr w7 \<Rightarrow>
                                                 push_serieslevel_outgoing_loop e cfg
                                                   move_operation file_list series_UID rest
                                                   w7)))))))"

definition push_serieslevel_outgoing ::
  "env \<Rightarrow> config \<Rightarrow> (string \<times> string) list \<Rightarrow> string list \<Rightarrow> string \<Rightarrow> tags
     \<Rightarrow> (string \<times> string) list \<Rightarrow> world \<Rightarrow> unit outcome \<times> world" where
  "push_serieslevel_outgoing e cfg triggered_rules file_list series_UID tags_list
     selected_targets w =
     (let move_operation = (if length triggered_rules = 1 then True else False)
      in push_serieslevel_outgoing_loop e cfg move_operation file_list series_UID
           selected_targets w)"

text \<open>
  The collection loop of \<open>push_serieslevel_routing\<close> (lines 291-297).
  \<open>selected_targets\<close> is a dict from the target to the rule that chose it.
\<close>

fun push_serieslevel_routing_loop ::
  "config \<Rightarrow> string list \<Rightarrow> tags \<Rightarrow> (string \<times> string) list \<Rightarrow> world
     \<Rightarrow> (string \<times> string) list outcome \<times> world" where
  "push_serieslevel_routing_loop cfg [] tags_list selected_targets w =
     (Returned selected_targets, w)"
| "push_serieslevel_routing_loop cfg (current_rule # rest) tags_list selected_targets w =
     (case map_of (rules cfg) current_rule of
        None \<Rightarrow> (Raised KeyError, w)
      | Some r \<Rightarrow>
          if get_default (r_action_trigger r) SERIES = SERIES
          then
            if get_default (r_action r) [] = ROUTE
            then
              let target = get_default (r_target r) [];
                  selected = (if target \<noteq> []
                              then AList.update target current_rule selected_targets
                              else selected_targets)
              in (case trigger_serieslevel_notification_reception cfg current_rule
                         tags_list w of
                    (Raised err, w1) \<Rightarrow> (Raised err, w1)
                  | (Returned u, w1) \<Rightarrow>
                      push_serieslevel_routing_loop cfg rest tags_list selected w1)
            else push_serieslevel_routing_loop cfg rest tags_list selected_targets w
          else push_serieslevel_routing_loop cfg rest tags_list selected_targets w)"

definition push_serieslevel_routing ::
  "env \<Rightarrow> config \<Rightarrow> (string \<times> string) list \<Rightarrow> string list \<Rightarrow> string \<Rightarrow> tags \<Rightarrow> world
     \<Rightarrow> unit outcome \<times> world" where
  "push_serieslevel_routing e cfg triggered_rules file_list series_UID tags_list w =
     (case push_serieslevel_routing_loop cfg (map fst triggered_rules) tags_list [] w of
        (Raised err, w1) \<Rightarrow> (Raised err, w1)
      | (Returned selected_targets, w1) \<Rightarrow>
          push_serieslevel_outgoing e cfg triggered_rules file_list series_UID tags_list
            selected_targets w1)"

text \<open>
  \<open>push_serieslevel_processing\<close> (lines 301-355). Here the lock path is
  \<open>Path(folder_name) / mercure_names.LOCK\<close>, which is well typed. Every failure of a
  staging step returns \<open>False\<close> from the function.
\<close>

fun push_serieslevel_processing_loop ::
  "env \<Rightarrow> config \<Rightarrow> (string \<times> string) list \<Rightarrow> string list \<Rightarrow> string list \<Rightarrow> string \<Rightarrow> tags
     \<Rightarrow> world \<Rightarrow> bool outcome \<times> world" where
  "push_serieslevel_processing_loop e cfg triggered_rules [] file_list series_UID tags_list w =
     (Returned True, w)"
| "push_serieslevel_processing_loop e cfg triggered_rules (current_rule # rest) file_list
     series_UID tags_list w =
     (case map_of (rules cfg) current_rule of
        None \<Rightarrow> (Raised KeyError, w)
      | Some r \<Rightarrow>
          if get_default (r_action_trigger r) SERIES = SERIES
             \<and> (get_default (r_action r) [] = PROCESS \<or> get_default (r_action r) [] = BOTH)
          then
            let copy_files = (if length triggered_rules = 1 then False else True)
            in (case uuid_call e w of
                  (u, w0) \<Rightarrow>
                    let folder_name = processing_folder cfg @ ''/'' @ u;
                        target_folder = folder_name @ ''/''
                    in (case os_mkdir folder_name w0 of
                          Inl err \<Rightarrow>
                            (Returned False,
                             send_event (''Unable to create processing folder '' @ folder_name)
                               w0)
                        | Inr w1 \<Rightarrow>
                            if \<not> path_exists w1 folder_name
                            then (Returned False,
                                  send_event (''Creating folder not possible '' @ folder_name)
                                    w1)
                            else
                              let lock_file = folder_name @ ''/'' @ LOCK
                              in (case FileLock lock_file w1 of
                                    Inl err \<Rightarrow>
                                      (Returned False,
                                       send_event (''Unable to create lock file '' @ lock_file)
                                         w1)
                                  | Inr w2 \<Rightarrow>
                                      (case create_series_task_processing target_folder
                                              current_rule series_UID tags_list w2 of
                                         (False, w3) \<Rightarrow> (Returned False, w3)
                                       | (True, w3) \<Rightarrow>
                                           (case push_files cfg file_list target_folder
                                                   copy_files w3 of
                                              (False, w4) \<Rightarrow>
                                                (Returned False,
                                                 send_event
                                                   (''Unable to push files into processing folder ''
                                                    @ target_folder) w4)
                                            | (True, w4) \<Rightarrow>
                                                (case lock_free lock_file w4 of
                                                   Inl err \<Rightarrow>
                                                     (Returned False,
                                                      send_event
                                                        (''Unable to remove lock file ''
                                                         @ lock_file) w4)
                                                 | Inr w5 \<Rightarrow>
                                                     (case trigger_serieslevel_notification_reception
                                                             cfg current_rule tags_list w5 of
                                                        (Raised err, w6) \<Rightarrow> (Raised err, w6)
                                                      | (Returned un, w6) \<Rightarrow>
                                                          push_serieslevel_processing_loop e cfg
                                                            triggered_rules rest file_list
                                                            series_UID tags_list w6)))))))
          else push_serieslevel_processing_loop e cfg triggered_rules rest file_list
                 series_UID tags_list w)"

definition push_serieslevel_processing ::
  "env \<Rightarrow> config \<Rightarrow> (string \<times> string) list \<Rightarrow> string list \<Rightarrow> string \<Rightarrow> tags \<Rightarrow> world
     \<Rightarrow> bool outcome \<times> world" where
  "push_serieslevel_processing e cfg triggered_rules file_list series_UID tags_list w =
     push_serieslevel_processing_loop e cfg triggered_rules (map fst triggered_rules)
       file_list series_UID tags_list w"

text \<open>
  \<open>push_serieslevel_notification\<close> (lines 358-368). Line 366 reads
  \<open>if len(triggered_rules==1)\<close>: the dict is compared with 1, which is \<open>False\<close>, and
  \<open>len\<close> is applied to that boolean.
\<close>

fun push_serieslevel_notification_loop ::
  "config \<Rightarrow> (string \<times> string) list \<Rightarrow> string list \<Rightarrow> string list \<Rightarrow> string \<Rightarrow> tags \<Rightarrow> world
     \<Rightarrow> bool outcome \<times> world" where
  "push_serieslevel_notification_loop cfg triggered_rules [] file_list series_UID tags_list w =
     (Returned True, w)"
| "push_serieslevel_notification_loop cfg triggered_rules (current_rule # rest) file_list
     series_UID tags_list w =
     (case map_of (rules cfg) current_rule of
        None \<Rightarrow> (Raised KeyError, w)
      | Some r \<Rightarrow>
          if get_default (r_action_trigger r) SERIES = SERIES
             \<and> get_default (r_action r) [] = NOTIFICATION
          then
            (case trigger_serieslevel_notification_reception cfg current_rule tags_list w of
               (Raised err, w1) \<Rightarrow> (Raised err, w1)
             | (Returned un, w1) \<Rightarrow>
                 (case len_bool False of
                    Inl err \<Rightarrow> (Raised err, w1)
                  | Inr n \<Rightarrow>
                      push_serieslevel_notification_loop cfg triggered_rules rest file_list
                        series_UID tags_list
                        (if n \<noteq> 0 then remove_series cfg file_list w1 else w1)))
          else push_serieslevel_notification_loop cfg triggered_rules rest file_list
                 series_UID tags_list w)"

definition push_serieslevel_notification ::
  "config \<Rightarrow> (string \<times> string) list \<Rightarrow> string list \<Rightarrow> string \<Rightarrow> tags \<Rightarrow> world
     \<Rightarrow> bool outcome \<times> world" where
  "push_serieslevel_notification cfg triggered_rules file_list series_UID tags_list w =
     push_serieslevel_notification_loop cfg triggered_rules (map fst triggered_rules)
       file_list series_UID tags_list w"

text \<open>\<open>push_series_serieslevel\<close> (lines 273-277): the results are not looked at.\<close>

definition push_series_serieslevel ::
  "env \<Rightarrow> config \<Rightarrow> (string \<times> string) list \<Rightarrow> string list \<Rightarrow> string \<Rightarrow> tags \<Rightarrow> world
     \<Rightarrow> unit outcome \<times> world" where
  "push_series_serieslevel e cfg triggered_rules file_list series_UID tags_list w =
     (case push_serieslevel_routing e cfg triggered_rules file_list series_UID tags_list w of
        (Raised err, w1) \<Rightarrow> (Raised err, w1)
      | (Returned u1, w1) \<Rightarrow>
          (case push_serieslevel_processing e cfg triggered_rules file_list series_UID
                  tags_list w1 of
             (Raised err, w2) \<Rightarrow> (Raised err, w2)
           | (Returned u2, w2) \<Rightarrow>
               (case push_serieslevel_notification cfg triggered_rules file_list series_UID
                       tags_list w2 of
                  (Raised err, w3) \<Rightarrow> (Raised err, w3)
                | (Returned u3, w3) \<Rightarrow> (Returned (), w3))))"

subsection \<open>The routing controller\<close>

text \<open>
  The scan of lines 89-92: the stems of the tag sidecars of the series, in scan order.
  \<open>entry.name[:-5]\<close> drops the extension \<open>.tags\<close>.
\<close>

definition series_files :: "string \<Rightarrow> (string \<times> bool) list \<Rightarrow> string list" where
  "series_files series_UID entries =
     map (\<lambda>(name, isdir). take (length name - 5) name)
       (filter (\<lambda>(name, isdir).
                  endswith name TAGS \<and> startswith name (series_UID @ ''#'') \<and> \<not> isdir)
          entries)"

text \<open>
  Lines 131-140 of \<open>route_series\<close>: the decision between the discard path and the
  fan-out, and the final cleanup.
\<close>

definition route_series_dispatch ::
  "env \<Rightarrow> config \<Rightarrow> (string \<times> string) list \<Rightarrow> string \<Rightarrow> string list \<Rightarrow> string \<Rightarrow> tags \<Rightarrow> world
     \<Rightarrow> unit outcome \<times> world" where
  "route_series_dispatch e cfg triggered_rules discard_series fileList series_UID tagsList w =
     (if length triggered_rules = 0 \<or> discard_series \<noteq> []
      then (Returned (), push_series_discard e cfg fileList series_UID discard_series w)
      else
        (case push_series_studylevel cfg triggered_rules fileList series_UID tagsList w of
           (Raised err, w1) \<Rightarrow> (Raised err, w1)
         | (Returned u1, w1) \<Rightarrow>
             (case push_series_serieslevel e cfg triggered_rules fileList series_UID
                     tagsList w1 of
                (Raised err, w2) \<Rightarrow> (Raised err, w2)
              | (Returned u2, w2) \<Rightarrow>
                  if length triggered_rules > 1
                  then (Returned (), remove_series cfg fileList w2)
                  else (Returned (), w2))))"

text \<open>
  \<open>route_series\<close> (lines 67-148). \<open>fileList[0]\<close> on line 96 stands outside the
  \<open>try\<close> that follows it. The header is parsed inside a \<open>try\<close> that catches
  everything; when the payload is there and the parser succeeds the sequence data goes
  to telemetry.
\<close>

definition route_series :: "env \<Rightarrow> config \<Rightarrow> string \<Rightarrow> world \<Rightarrow> unit outcome \<times> world" where
  "route_series e cfg series_UID w =
     (let lock_file = incoming_folder cfg @ ''/'' @ series_UID @ LOCK
      in if path_exists w lock_file then (Returned (), w)
         else
           (case FileLock lock_file w of
              Inl err \<Rightarrow>
                (Returned (), send_event (''Unable to create lock file '' @ lock_file) w)
            | Inr w1 \<Rightarrow>
                (case os_scandir (incoming_folder cfg) w1 of
                   Inl err \<Rightarrow> (Raised err, w1)
                 | Inr entries \<Rightarrow>
                     let fileList = series_files series_UID entries
                     in (case fileList of
                           [] \<Rightarrow> (Raised IndexError, w1)
                         | first_stem # others \<Rightarrow>
                             let representative_dcm =
                                   incoming_folder cfg @ ''/'' @ first_stem @ DCM;
                                 w2 = (if lookup w1 representative_dcm = Some File
                                       then (case parse_ascconv e representative_dcm of
                                               None \<Rightarrow> w1
                                             | Some sequence_data \<Rightarrow>
                                                 w1\<lparr>events := events w1
                                                      @ [SeriesSequenceData series_UID
                                                           sequence_data]\<rparr>)
                                       else w1);
                                 tagsMasterFile =
                                   incoming_folder cfg @ ''/'' @ first_stem @ TAGS
                             in if \<not> path_exists w2 tagsMasterFile
                                then (Returned (),
                                      send_event (''Missing file '' @ first_stem @ TAGS) w2)
                                else
                                  (case json_load e tagsMasterFile of
                                     None \<Rightarrow>
                                       (Returned (),
                                        send_event (''Invalid tag for series '' @ series_UID)
                                          (send_series_event S_ERROR (fst (last entries)) 0 []
                                             ''Invalid tag information'' w2))
                                   | Some tagsList \<Rightarrow>
                                       let w3 = send_series_event S_REGISTERED series_UID
                                                  (length fileList) [] []
                                                  (w2\<lparr>events := events w2
                                                        @ [RegisterSeries tagsList]\<rparr>)
                                       in (case get_triggered_rules e cfg tagsList w3 of
                                             ((triggered_rules, discard_series), w4) \<Rightarrow>
                                               (case route_series_dispatch e cfg triggered_rules
                                                       discard_series fileList series_UID
                                                       tagsList w4 of
                                                  (Raised err, w5) \<Rightarrow> (Raised err, w5)
                                                | (Returned un, w5) \<Rightarrow>
                                                    (case lock_free lock_file w5 of
                                                       Inl err \<Rightarrow>
                                                         (Returned (),
                                                          send_event
                                                            (''Unable to remove lock file ''
                                                             @ lock_file) w5)
                                                     | Inr w6 \<Rightarrow> (Returned (), w6)))))))))"

subsection \<open>The error sweeper\<close>

fun str_of_nat :: "nat \<Rightarrow> string" where
  "str_of_nat n =
     (if n < 10 then [char_of (48 + n)]
      else str_of_nat (n div 10) @ [char_of (48 + n mod 10)])"

text \<open>
  \<open>route_error_files\<close> (lines 491-525). The lock path of line 501 is
  \<open>Path(config.mercure[INCOMING] / entry.name + mercure_names.LOCK)\<close>: the division
  binds first and its operands are two strings. It stands outside any \<open>try\<close>, as do
  the moves and \<open>lock.free()\<close>.
\<close>

fun route_error_files_loop ::
  "config \<Rightarrow> (string \<times> bool) list \<Rightarrow> nat \<Rightarrow> world \<Rightarrow> nat outcome \<times> world" where
  "route_error_files_loop cfg [] error_files_found w = (Returned error_files_found, w)"
| "route_error_files_loop cfg ((name, isdir) # rest) error_files_found w =
     (if endswith name ERROR \<and> \<not> isdir
      then
        (case str_truediv (incoming_folder cfg) name of
           Inl err \<Rightarrow> (Raised err, w)
         | Inr joined \<Rightarrow>
             let lock_file = joined @ LOCK
             in if path_exists w lock_file
                then route_error_files_loop cfg rest error_files_found w
                else
                  (case FileLock lock_file w of
                     Inl err \<Rightarrow> route_error_files_loop cfg rest error_files_found w
                   | Inr w1 \<Rightarrow>
                       (case shutil_move (incoming_folder cfg @ ''/'' @ name)
                               (error_folder cfg @ ''/'' @ name) w1 of
                          Inl err \<Rightarrow> (Raised err, w1)
                        | Inr w2 \<Rightarrow>
                            let dicom_filename = take (length name - 6) name
                            in (case (if path_exists w2
                                           (incoming_folder cfg @ ''/'' @ dicom_filename)
                                      then shutil_move
                                             (incoming_folder cfg @ ''/'' @ dicom_filename)
                                             (error_folder cfg @ ''/'' @ dicom_filename) w2
                                      else Inr w2) of
                                  Inl err \<Rightarrow> (Raised err, w2)
                                | Inr w3 \<Rightarrow>
                                    (case lock_free lock_file w3 of
                                       Inl err \<Rightarrow> (Raised err, w3)
                                     | Inr w4 \<Rightarrow>
                                         route_error_files_loop cfg rest
                                           (Suc error_files_found) w4)))))
      else route_error_files_loop cfg rest error_files_found w)"

definition route_error_files :: "config \<Rightarrow> world \<Rightarrow> unit outcome \<times> world" where
  "route_error_files cfg w =
     (case os_scandir (incoming_folder cfg) w of
        Inl err \<Rightarrow> (Raised err, w)
      | Inr entries \<Rightarrow>
          (case route_error_files_loop cfg entries 0 w of
             (Raised err, w1) \<Rightarrow> (Raised err, w1)
           | (Returned error_files_found, w1) \<Rightarrow>
               (Returned (),
                if error_files_found > 0
                then send_event (''Error parsing '' @ str_of_nat error_files_found
                                 @ '' incoming files'') w1
                else w1)))"

subsection \<open>The matcher in the words of the spec\<close>

text \<open>
  The matcher as section 4.C of the spec words it, for comparison with the loop. A rule
  fires when it is not disabled and its predicate is truthy; the iteration stops at the
  first firing rule whose action is discard; a rule raises when it is not disabled and
  its predicate raises.
\<close>

definition rule_fires :: "env \<Rightarrow> config \<Rightarrow> tags \<Rightarrow> string \<Rightarrow> bool" where
  "rule_fires e cfg tagList n =
     (case map_of (rules cfg) n of
        None \<Rightarrow> False
      | Some r \<Rightarrow> get_default (r_disabled r) ''False'' \<noteq> ''True''
                 \<and> parse_rule e (get_default (r_rule r) ''False'') tagList = Inr True)"

definition rule_raises :: "env \<Rightarrow> config \<Rightarrow> tags \<Rightarrow> string \<Rightarrow> bool" where
  "rule_raises e cfg tagList n =
     (case map_of (rules cfg) n of
        None \<Rightarrow> True
      | Some r \<Rightarrow> get_default (r_disabled r) ''False'' \<noteq> ''True''
                 \<and> isl (parse_rule e (get_default (r_rule r) ''False'') tagList))"

definition rule_discards :: "config \<Rightarrow> string \<Rightarrow> bool" where
  "rule_discards cfg n =
     (case map_of (rules cfg) n of
        None \<Rightarrow> False
      | Some r \<Rightarrow> get_default (r_action r) '''' = DISCARD)"

definition stops_here :: "env \<Rightarrow> config \<Rightarrow> tags \<Rightarrow> string \<Rightarrow> bool" where
  "stops_here e cfg tagList n = (rule_fires e cfg tagList n \<and> rule_discards cfg n)"

text \<open>The rules the iteration reaches: all up to and including the first that stops it.\<close>

definition evaluated_rules :: "env \<Rightarrow> config \<Rightarrow> tags \<Rightarrow> string list \<Rightarrow> string list" where
  "evaluated_rules e cfg tagList names =
     takeWhile (\<lambda>n. \<not> stops_here e cfg tagList n) names
     @ take 1 (dropWhile (\<lambda>n. \<not> stops_here e cfg tagList n) names)"

definition spec_triggered :: "env \<Rightarrow> config \<Rightarrow> tags \<Rightarrow> string list \<Rightarrow> string list" where
  "spec_triggered e cfg tagList names =
     filter (rule_fires e cfg tagList) (evaluated_rules e cfg tagList names)"

definition spec_discard :: "env \<Rightarrow> config \<Rightarrow> tags \<Rightarrow> string list \<Rightarrow> string" where
  "spec_discard e cfg tagList names =
     (case dropWhile (\<lambda>n. \<not> stops_here e cfg tagList n) names of
        [] \<Rightarrow> ''''
      | d # _ \<Rightarrow> d)"

definition spec_invalid_events :: "env \<Rightarrow> config \<Rightarrow> tags \<Rightarrow> string list \<Rightarrow> event list" where
  "spec_invalid_events e cfg tagList names =
     map (\<lambda>n. Event (''Invalid rule: '' @ n))
       (filter (rule_raises e cfg tagList) (evaluated_rules e cfg tagList names))"

subsection \<open>Concrete inputs\<close>

text \<open>
  A rule with the given predicate, action, trigger scope and target; an environment
  whose rule evaluator raises on the expression \<open>boom\<close> and holds of \<open>yes\<close>
  only; a world holding the given files and nothing else.
\<close>

definition mk_rule :: "string \<Rightarrow> string \<Rightarrow> string \<Rightarrow> string \<Rightarrow> rule" where
  "mk_rule pred act trig tgt =
     \<lparr>r_disabled = None, r_rule = Some pred, r_action = Some act,
      r_action_trigger = Some trig, r_target = Some tgt,
      r_notification_webhook = Some ''hook'', r_notification_payload = None\<rparr>"

definition ex_env :: env where
  "ex_env = \<lparr>parse_rule = (\<lambda>expr t. if expr = ''boom'' then Inl RuleError else Inr (expr = ''yes'')),
     json_load = (\<lambda>p. Some [(''StudyInstanceUID'', ''Y'')]),
     parse_ascconv = (\<lambda>p. None),
     uuid1 = (\<lambda>n. replicate (Suc n) CHR ''u'')\<rparr>"

definition ex_world :: "(string list \<times> node) list \<Rightarrow> world" where
  "ex_world files = \<lparr>fs = files, events = [], webhooks = [], uuid_count = 0\<rparr>"

definition matcher_cfg :: config where
  "matcher_cfg = \<lparr>incoming_folder = ''in'', outgoing_folder = ''out'', processing_folder = ''proc'',
     discard_folder = ''disc'', error_folder = ''err'',
     rules = [(''r1'', (mk_rule ''yes'' ''route'' ''series'' ''X'')\<lparr>r_disabled := Some ''True''\<rparr>),
              (''r2'', mk_rule ''boom'' ''route'' ''series'' ''X''),
              (''r3'', mk_rule ''yes'' ''process'' ''series'' ''''),
              (''r4'', mk_rule ''yes'' ''discard'' ''series'' ''''),
              (''r5'', mk_rule ''boom'' ''route'' ''series'' ''X'')],
     targets = [''X'']\<rparr>"

definition ex_cfg :: "(string \<times> rule) list \<Rightarrow> config" where
  "ex_cfg rs = \<lparr>incoming_folder = ''in'', outgoing_folder = ''out'', processing_folder = ''proc'',
     discard_folder = ''disc'', error_folder = ''err'', rules = rs, targets = [''X'']\<rparr>"

definition spool :: "(string list \<times> node) list" where
  "spool = [([''in''], Dir), ([''in'', ''S#a.dcm''], File), ([''in'', ''S#a.tags''], File),
            ([''in'', ''S#b.dcm''], File), ([''in'', ''S#b.tags''], File),
            ([''out''], Dir), ([''proc''], Dir), ([''disc''], Dir), ([''err''], Dir)]"

text \<open>The notions the statements about the series-level dispatch speak of.\<close>

definition is_series_route :: "config \<Rightarrow> string \<Rightarrow> bool" where
  "is_series_route cfg n =
     (case map_of (rules cfg) n of
        None \<Rightarrow> False
      | Some r \<Rightarrow> get_default (r_action_trigger r) SERIES = SERIES
                 \<and> get_default (r_action r) [] = ROUTE)"

definition reception_hook :: "config \<Rightarrow> string \<Rightarrow> string \<times> string \<times> string" where
  "reception_hook cfg n =
     (case map_of (rules cfg) n of
        None \<Rightarrow> ([], [], RECEPTION)
      | Some r \<Rightarrow> (get_default (r_notification_webhook r) [],
                   get_default (r_notification_payload r) [], RECEPTION))"

definition rule_target :: "config \<Rightarrow> string \<Rightarrow> string" where
  "rule_target cfg n =
     (case map_of (rules cfg) n of None \<Rightarrow> [] | Some r \<Rightarrow> get_default (r_target r) [])"

text \<open>A selected target that is not a key of the targets table.\<close>

definition unknown_target :: "config \<Rightarrow> string \<times> string \<Rightarrow> bool" where
  "unknown_target cfg sel = (fst sel \<notin> set (targets cfg))"

definition routing_cfg :: config where
  "routing_cfg =
     ex_cfg [(''rz'', (mk_rule ''yes'' ''route'' ''series'' ''Z'')
                        \<lparr>r_notification_webhook := Some ''hook-z''\<rparr>),
             (''rn'', (mk_rule ''yes'' ''route'' ''series'' [])
                        \<lparr>r_notification_webhook := Some ''hook-n''\<rparr>),
             (''p'', mk_rule ''yes'' ''process'' ''series'' [])]"

text \<open>
  Three rules that all hold: a route rule to the unknown target \<open>Z\<close>, a route rule to
  the configured target \<open>X\<close>, and a process rule.
\<close>

definition mixed_cfg :: config where
  "mixed_cfg =
     ex_cfg [(''rz'', (mk_rule ''yes'' ''route'' ''series'' ''Z'')
                        \<lparr>r_notification_webhook := Some ''hook-z''\<rparr>),
             (''rx'', (mk_rule ''yes'' ''route'' ''series'' ''X'')
                        \<lparr>r_notification_webhook := Some ''hook-x''\<rparr>),
             (''p'', mk_rule ''yes'' ''process'' ''series'' [])]"

text \<open>
  The notions the statements about the discard path speak of. \<open>untouched K w w'\<close>:
  from \<open>w\<close> to \<open>w'\<close> no webhook was fired and no path outside \<open>K\<close> was created,
  removed or replaced. \<open>pair_keys d es\<close>: the paths of the payload and the sidecar of
  the stems \<open>es\<close> in the folder \<open>d\<close>.
\<close>

definition untouched :: "string list set \<Rightarrow> world \<Rightarrow> world \<Rightarrow> bool" where
  "untouched K w w' =
     (webhooks w' = webhooks w
      \<and> (\<forall>k. k \<notin> K \<longrightarrow> map_of (fs w') k = map_of (fs w) k))"

definition pair_keys :: "string list \<Rightarrow> string list \<Rightarrow> string list set" where
  "pair_keys d es = set (concat (map (\<lambda>e. [d @ [e @ DCM], d @ [e @ TAGS]]) es))"


section \<open>Properties\<close>

subsection \<open>The rule matcher\<close>

lemma update_fresh: "k \<notin> fst ` set al \<Longrightarrow> AList.update k v al = al @ [(k, v)]"
  by (induction al) auto

lemma evaluated_rules_Nil: "evaluated_rules e cfg t [] = []"
  by (simp add: evaluated_rules_def)

lemma evaluated_rules_Cons:
  "evaluated_rules e cfg t (n # ns) =
     (if stops_here e cfg t n then [n] else n # evaluated_rules e cfg t ns)"
  by (simp add: evaluated_rules_def)

lemma spec_discard_Nil: "spec_discard e cfg t [] = ''''"
  by (simp add: spec_discard_def)

lemma spec_discard_Cons:
  "spec_discard e cfg t (n # ns) = (if stops_here e cfg t n then n else spec_discard e cfg t ns)"
  by (simp add: spec_discard_def)

lemma loop_spec:
  "distinct names \<Longrightarrow> set names \<inter> fst ` set acc = {} \<Longrightarrow>
   get_triggered_rules_loop e cfg t names acc w =
     ((acc @ map (\<lambda>n. (n, n)) (spec_triggered e cfg t names), spec_discard e cfg t names),
      w\<lparr>events := events w @ spec_invalid_events e cfg t names\<rparr>)"
proof (induction names arbitrary: acc w)
  case Nil
  then show ?case
    by (simp add: spec_triggered_def spec_invalid_events_def evaluated_rules_Nil spec_discard_Nil)
next
  case (Cons n ns)
  have fresh: "n \<notin> fst ` set acc" using Cons.prems by auto
  have d: "distinct ns" using Cons.prems by simp
  have disj: "set ns \<inter> fst ` set acc = {}" using Cons.prems by auto
  have disj': "set ns \<inter> fst ` set (acc @ [(n, n)]) = {}" using Cons.prems by auto
  note IH1 = Cons.IH[OF d disj]
  note IH2 = Cons.IH[OF d disj']
  show ?case
    by (auto simp: IH1 IH2 update_fresh[OF fresh] spec_triggered_def spec_invalid_events_def
        evaluated_rules_Cons spec_discard_Cons stops_here_def rule_fires_def rule_raises_def
        rule_discards_def send_event_def
        split: option.splits sum.splits bool.splits)
qed

text \<open>
  Claim C3. For every rules table (a dict: its keys are distinct) and every tag
  document, \<open>get_triggered_rules\<close> goes through the rules in configuration order and
  returns what section 4.C describes: the triggered set holds, in that order, the rules
  that are not disabled and whose predicate is truthy, up to and including the first
  such rule whose action is discard; that rule's name is the discard-override (the
  empty string when there is none) and no rule after it is evaluated; a rule whose
  predicate raises is skipped with one \<open>Invalid rule\<close> event and the iteration goes on.
\<close>

theorem get_triggered_rules_refines_spec:
  assumes "distinct (map fst (rules cfg))"
  shows "get_triggered_rules e cfg tagList w =
           ((map (\<lambda>n. (n, n)) (spec_triggered e cfg tagList (map fst (rules cfg))),
             spec_discard e cfg tagList (map fst (rules cfg))),
            w\<lparr>events := events w @ spec_invalid_events e cfg tagList (map fst (rules cfg))\<rparr>)"
  unfolding get_triggered_rules_def using loop_spec[OF assms, of "[]" e cfg tagList w] by simp

text \<open>
  Five rules: the first disabled, the second and the fifth raising, the third a process
  rule, the fourth a discard rule. The third and the fourth trigger, the iteration stops
  at the fourth, and only the second is reported.
\<close>

theorem get_triggered_rules_refines_spec_witness:
  "distinct (map fst (rules matcher_cfg)) \<and>
   get_triggered_rules ex_env matcher_cfg [] (ex_world []) =
     (([(''r3'', ''r3''), (''r4'', ''r4'')], ''r4''),
      \<lparr>fs = [], events = [Event ''Invalid rule: r2''], webhooks = [], uuid_count = 0\<rparr>)"
proof -
  have d: "distinct (map fst (rules matcher_cfg))" by (simp add: matcher_cfg_def)
  show ?thesis
    using d get_triggered_rules_refines_spec[OF d, of ex_env "[]" "ex_world []"]
    by (simp add: matcher_cfg_def ex_env_def ex_world_def mk_rule_def spec_triggered_def
        spec_discard_def spec_invalid_events_def evaluated_rules_def stops_here_def
        rule_fires_def rule_raises_def rule_discards_def get_default_def)
qed

subsection \<open>Transfer of a batch of files\<close>

lemma push_files_loop_append:
  "push_files_loop operation s t pre w = (True, w1) \<Longrightarrow>
   push_files_loop operation s t (pre @ rest) w = push_files_loop operation s t rest w1"
  by (induction pre arbitrary: w) (auto split: prod.splits option.splits)

text \<open>
  Claim C7, as amended. \<open>push_files\<close> stops at the first pair whose transfer
  raises: when the pairs before \<open>entry\<close> have been transferred and the transfer of
  \<open>entry\<close> raises, the function reports one error event for \<open>entry\<close> and
  returns \<open>False\<close> in the world of the failure, whatever pairs follow: none of them
  is transferred.
\<close>

theorem push_files_stops_at_first_failure:
  assumes "push_files cfg pre target_path copy_files w = (True, w1)"
    and "transfer_pair (if copy_files = False then shutil_move else shutil_copy)
           (incoming_folder cfg @ ''/'') (target_path @ ''/'') entry w1 = (Some err, w2)"
  shows "push_files cfg (pre @ entry # post) target_path copy_files w =
           (False, send_event (''Problem while pushing file to outgoing '' @ entry) w2)"
  using assms
  by (simp add: push_files_def Let_def push_files_loop_append)

text \<open>
  A batch of three stems of which the second has no files: the first is copied, the
  second is reported, the third is left where it was.
\<close>

theorem push_files_stops_at_first_failure_witness:
  "push_files (ex_cfg []) [''S#a''] ''proc'' True (ex_world spool) =
     (True, ex_world (spool @ [([''proc'', ''S#a.dcm''], File), ([''proc'', ''S#a.tags''], File)]))
   \<and> transfer_pair (if True = False then shutil_move else shutil_copy)
        (incoming_folder (ex_cfg []) @ ''/'') (''proc'' @ ''/'') ''S#x''
        (ex_world (spool @ [([''proc'', ''S#a.dcm''], File), ([''proc'', ''S#a.tags''], File)])) =
     (Some FileNotFoundError,
      ex_world (spool @ [([''proc'', ''S#a.dcm''], File), ([''proc'', ''S#a.tags''], File)]))
   \<and> push_files (ex_cfg []) ([''S#a''] @ ''S#x'' # [''S#b'']) ''proc'' True (ex_world spool) =
     (False, send_event (''Problem while pushing file to outgoing '' @ ''S#x'')
        (ex_world (spool @ [([''proc'', ''S#a.dcm''], File), ([''proc'', ''S#a.tags''], File)])))"
proof -
  have a: "push_files (ex_cfg []) [''S#a''] ''proc'' True (ex_world spool) =
     (True, ex_world (spool @ [([''proc'', ''S#a.dcm''], File), ([''proc'', ''S#a.tags''], File)]))"
    by code_simp
  have b: "transfer_pair (if True = False then shutil_move else shutil_copy)
        (incoming_folder (ex_cfg []) @ ''/'') (''proc'' @ ''/'') ''S#x''
        (ex_world (spool @ [([''proc'', ''S#a.dcm''], File), ([''proc'', ''S#a.tags''], File)])) =
     (Some FileNotFoundError,
      ex_world (spool @ [([''proc'', ''S#a.dcm''], File), ([''proc'', ''S#a.tags''], File)]))"
    by code_simp
  show ?thesis
    using a b push_files_stops_at_first_failure[OF a b, of "[''S#b'']"] by simp
qed

text \<open>
  Claim C7 as stated fails: after the failure of \<open>S#x\<close> the pair \<open>S#b\<close>, which
  transfers without error on its own, is not transferred.
\<close>

theorem push_files_aborts_batch_counterexample:
  "push_files (ex_cfg []) [''S#x'', ''S#b''] ''proc'' True (ex_world spool) =
     (False, send_event ''Problem while pushing file to outgoing S#x'' (ex_world spool))
   \<and> lookup (snd (push_files (ex_cfg []) [''S#x'', ''S#b''] ''proc'' True (ex_world spool)))
        ''proc/S#b.dcm'' = None
   \<and> fst (push_files (ex_cfg []) [''S#b''] ''proc'' True (ex_world spool)) = True"
  by code_simp

subsection \<open>Series-level routing: webhooks and target validation\<close>

lemma keys_update: "fst ` set (AList.update k v al) = insert k (fst ` set al)"
  by (induction al) auto

lemma routing_loop_collect:
  "\<forall>n\<in>set names. map_of (rules cfg) n \<noteq> None \<Longrightarrow>
   \<exists>selected.
     push_serieslevel_routing_loop cfg names t acc w =
       (Returned selected,
        w\<lparr>webhooks := webhooks w @ map (reception_hook cfg) (filter (is_series_route cfg) names)\<rparr>)
     \<and> fst ` set selected =
         fst ` set acc \<union> {rule_target cfg n |n. n \<in> set names \<and> is_series_route cfg n
                              \<and> rule_target cfg n \<noteq> []}"
proof (induction names arbitrary: acc w)
  case Nil
  then show ?case by simp
next
  case (Cons n ns)
  then obtain r where r: "map_of (rules cfg) n = Some r" by auto
  have rest: "\<forall>n\<in>set ns. map_of (rules cfg) n \<noteq> None" using Cons.prems by simp
  show ?case
  proof (cases "is_series_route cfg n")
    case False
    then have "push_serieslevel_routing_loop cfg (n # ns) t acc w =
               push_serieslevel_routing_loop cfg ns t acc w"
      using r by (auto simp: is_series_route_def)
    with Cons.IH[OF rest, of acc w] False show ?thesis by auto
  next
    case True
    define acc' where "acc' = (if rule_target cfg n \<noteq> [] then AList.update (rule_target cfg n) n acc else acc)"
    define w' where "w' = send_webhook (get_default (r_notification_webhook r) [])
             (get_default (r_notification_payload r) []) RECEPTION w"
    have step: "push_serieslevel_routing_loop cfg (n # ns) t acc w =
               push_serieslevel_routing_loop cfg ns t acc' w'"
      using r True
      by (simp add: is_series_route_def rule_target_def acc'_def w'_def Let_def
          trigger_serieslevel_notification_reception_def)
    have w': "w' = w\<lparr>webhooks := webhooks w @ [reception_hook cfg n]\<rparr>"
      using r by (simp add: w'_def send_webhook_def reception_hook_def)
    have keys: "fst ` set acc' = fst ` set acc \<union> (if rule_target cfg n \<noteq> [] then {rule_target cfg n} else {})"
      by (auto simp: acc'_def keys_update)
    from Cons.IH[OF rest, of acc' w'] obtain selected where
      sel: "push_serieslevel_routing_loop cfg ns t acc' w' =
        (Returned selected,
         w'\<lparr>webhooks := webhooks w' @ map (reception_hook cfg) (filter (is_series_route cfg) ns)\<rparr>)"
      and k: "fst ` set selected =
         fst ` set acc' \<union> {rule_target cfg n |n. n \<in> set ns \<and> is_series_route cfg n
                              \<and> rule_target cfg n \<noteq> []}"
      by blast
    have "push_serieslevel_routing_loop cfg (n # ns) t acc w =
       (Returned selected,
        w\<lparr>webhooks := webhooks w @ map (reception_hook cfg) (filter (is_series_route cfg) (n # ns))\<rparr>)"
      using step sel True by (simp add: w')
    moreover have "fst ` set selected =
         fst ` set acc \<union> {rule_target cfg m |m. m \<in> set (n # ns) \<and> is_series_route cfg m
                              \<and> rule_target cfg m \<noteq> []}"
      using k keys True by auto
    ultimately show ?thesis by blast
  qed
qed

lemma os_mkdir_fields:
  "os_mkdir p w = Inr w1 \<Longrightarrow>
   webhooks w1 = webhooks w \<and> events w1 = events w \<and> uuid_count w1 = uuid_count w"
  by (auto simp: os_mkdir_def set_node_def split: if_splits)

lemma outgoing_loop_webhooks:
  "webhooks (snd (push_serieslevel_outgoing_loop e cfg mv fl S sel w)) = webhooks w"
proof (induction sel arbitrary: w)
  case Nil
  then show ?case by simp
next
  case (Cons a sel)
  obtain tg rn where a: "a = (tg, rn)" by (cases a)
  show ?case
    unfolding a
    by (auto simp: Cons.IH send_event_def uuid_call_def str_truediv_def Let_def
        dest: os_mkdir_fields split: sum.splits)
qed

lemma outgoing_loop_all_unknown:
  "\<forall>tg\<in>fst ` set sel. tg \<notin> set (targets cfg) \<Longrightarrow>
   push_serieslevel_outgoing_loop e cfg mv fl S sel w =
     (Returned (), w\<lparr>events := events w @ map (\<lambda>tg. Event (''Invalid target selected '' @ tg)) (map fst sel)\<rparr>)"
proof (induction sel arbitrary: w)
  case Nil
  then show ?case by simp
next
  case (Cons a sel)
  obtain tg rn where a: "a = (tg, rn)" by (cases a)
  have "tg \<notin> set (targets cfg)" using Cons.prems a by simp
  moreover have "\<forall>tg\<in>fst ` set sel. tg \<notin> set (targets cfg)" using Cons.prems by simp
  ultimately show ?case
    unfolding a by (simp add: Cons.IH send_event_def)
qed

lemma outgoing_loop_skips_unknown:
  "push_serieslevel_outgoing_loop e cfg mv fl S sel w =
   push_serieslevel_outgoing_loop e cfg mv fl S (dropWhile (unknown_target cfg) sel)
     (w\<lparr>events := events w
           @ map (\<lambda>s. Event (''Invalid target selected '' @ fst s))
               (takeWhile (unknown_target cfg) sel)\<rparr>)"
proof (induction sel arbitrary: w)
  case Nil
  then show ?case by simp
next
  case (Cons a sel)
  obtain tg rn where a: "a = (tg, rn)" by (cases a)
  show ?case
  proof (cases "unknown_target cfg a")
    case False
    then show ?thesis
      by (simp del: push_serieslevel_outgoing_loop.simps)
  next
    case True
    then have skip: "push_serieslevel_outgoing_loop e cfg mv fl S (a # sel) w =
                     push_serieslevel_outgoing_loop e cfg mv fl S sel
                       (send_event (''Invalid target selected '' @ tg) w)"
      by (simp add: a unknown_target_def)
    have w: "(send_event (''Invalid target selected '' @ tg) w)
               \<lparr>events := events (send_event (''Invalid target selected '' @ tg) w)
                   @ map (\<lambda>s. Event (''Invalid target selected '' @ fst s))
                       (takeWhile (unknown_target cfg) sel)\<rparr> =
             w\<lparr>events := events w
                 @ map (\<lambda>s. Event (''Invalid target selected '' @ fst s))
                     (takeWhile (unknown_target cfg) (a # sel))\<rparr>"
      using True by (simp add: send_event_def a)
    show ?thesis
      using True Cons.IH[of "send_event (''Invalid target selected '' @ tg) w"]
      by (simp only: skip w dropWhile.simps if_True)
  qed
qed

text \<open>
  Claim C10. When every triggered rule is configured, the collection loop of
  \<open>push_serieslevel_routing\<close> returns having fired the reception webhook once for
  each triggered series-level rule whose action is route, in order, and having changed
  nothing else; the selected-targets map has exactly the non-empty targets of those rules
  as keys, so a rule with an empty target adds no entry and still fires its webhook.
  Staging fires no webhook: after the whole of \<open>push_serieslevel_routing\<close>, however
  it ends, the webhooks fired are those of the collection.

  Each selected target that is not in the targets table gets an error event and nothing
  else: staging any selection, from any state, is staging what is left of it from its
  first configured target on, in the state that differs from the starting one by one
  \<open>Invalid target selected\<close> event for each target passed over, in order. For these
  targets no identifier is drawn and no folder is created, whatever follows them in the
  selection. \<open>push_serieslevel_routing\<close> as a whole is the collection followed by
  exactly that. When no route rule names a configured target the filesystem is left as
  it was.
\<close>

theorem route_webhook_precedes_validation:
  assumes "\<forall>n\<in>set (map fst triggered_rules). map_of (rules cfg) n \<noteq> None"
  shows "(\<exists>selected.
            push_serieslevel_routing_loop cfg (map fst triggered_rules) tags_list [] w =
              (Returned selected,
               w\<lparr>webhooks := webhooks w @ map (reception_hook cfg)
                    (filter (is_series_route cfg) (map fst triggered_rules))\<rparr>)
            \<and> fst ` set selected =
                {rule_target cfg n |n. n \<in> set (map fst triggered_rules)
                   \<and> is_series_route cfg n \<and> rule_target cfg n \<noteq> []}
            \<and> push_serieslevel_routing e cfg triggered_rules file_list series_UID tags_list w =
                push_serieslevel_outgoing_loop e cfg (length triggered_rules = 1) file_list
                  series_UID (dropWhile (unknown_target cfg) selected)
                  (w\<lparr>webhooks := webhooks w @ map (reception_hook cfg)
                        (filter (is_series_route cfg) (map fst triggered_rules)),
                     events := events w
                       @ map (\<lambda>s. Event (''Invalid target selected '' @ fst s))
                           (takeWhile (unknown_target cfg) selected)\<rparr>))
         \<and> webhooks (snd (push_serieslevel_routing e cfg triggered_rules file_list series_UID
                             tags_list w)) =
             webhooks w @ map (reception_hook cfg)
               (filter (is_series_route cfg) (map fst triggered_rules))
         \<and> push_serieslevel_outgoing_loop e cfg move_operation file_list series_UID
             selection v =
             push_serieslevel_outgoing_loop e cfg move_operation file_list series_UID
               (dropWhile (unknown_target cfg) selection)
               (v\<lparr>events := events v
                    @ map (\<lambda>s. Event (''Invalid target selected '' @ fst s))
                        (takeWhile (unknown_target cfg) selection)\<rparr>)
         \<and> ((\<forall>n\<in>set (map fst triggered_rules).
                is_series_route cfg n \<longrightarrow> rule_target cfg n \<notin> set (targets cfg)) \<longrightarrow>
            fs (snd (push_serieslevel_routing e cfg triggered_rules file_list series_UID
                       tags_list w)) = fs w)"
proof -
  let ?hooks = "webhooks w @ map (reception_hook cfg)
                    (filter (is_series_route cfg) (map fst triggered_rules))"
  from routing_loop_collect[OF assms, of tags_list "[]" w] obtain selected where
    sel: "push_serieslevel_routing_loop cfg (map fst triggered_rules) tags_list [] w =
              (Returned selected, w\<lparr>webhooks := ?hooks\<rparr>)"
    and keys: "fst ` set selected =
                {rule_target cfg n |n. n \<in> set (map fst triggered_rules)
                   \<and> is_series_route cfg n \<and> rule_target cfg n \<noteq> []}"
    by auto
  have "push_serieslevel_routing e cfg triggered_rules file_list series_UID tags_list w =
          push_serieslevel_outgoing_loop e cfg (length triggered_rules = 1) file_list
            series_UID selected (w\<lparr>webhooks := ?hooks\<rparr>)"
    by (simp add: push_serieslevel_routing_def sel push_serieslevel_outgoing_def)
  also have "\<dots> = push_serieslevel_outgoing_loop e cfg (length triggered_rules = 1) file_list
                  series_UID (dropWhile (unknown_target cfg) selected)
                  (w\<lparr>webhooks := ?hooks,
                     events := events w
                       @ map (\<lambda>s. Event (''Invalid target selected '' @ fst s))
                           (takeWhile (unknown_target cfg) selected)\<rparr>)"
    using outgoing_loop_skips_unknown[of e cfg "length triggered_rules = 1" file_list
        series_UID selected "w\<lparr>webhooks := ?hooks\<rparr>"]
    by simp
  finally have staged:
    "push_serieslevel_routing e cfg triggered_rules file_list series_UID tags_list w =
       push_serieslevel_outgoing_loop e cfg (length triggered_rules = 1) file_list
         series_UID (dropWhile (unknown_target cfg) selected)
         (w\<lparr>webhooks := ?hooks,
            events := events w
              @ map (\<lambda>s. Event (''Invalid target selected '' @ fst s))
                  (takeWhile (unknown_target cfg) selected)\<rparr>)" .
  have hooks: "webhooks (snd (push_serieslevel_routing e cfg triggered_rules file_list series_UID
                             tags_list w)) = ?hooks"
    by (simp add: push_serieslevel_routing_def sel push_serieslevel_outgoing_def
        outgoing_loop_webhooks)
  have unknown: "fs (snd (push_serieslevel_routing e cfg triggered_rules file_list series_UID
                       tags_list w)) = fs w"
    if "\<forall>n\<in>set (map fst triggered_rules).
                is_series_route cfg n \<longrightarrow> rule_target cfg n \<notin> set (targets cfg)"
  proof -
    have "\<forall>tg\<in>fst ` set selected. tg \<notin> set (targets cfg)"
      using that keys by auto
    then show ?thesis
      by (simp add: push_serieslevel_routing_def sel push_serieslevel_outgoing_def
          outgoing_loop_all_unknown)
  qed
  from sel keys staged hooks unknown
    outgoing_loop_skips_unknown[of e cfg move_operation file_list series_UID
      selection v]
  show ?thesis by blast
qed

text \<open>
  Three triggered rules: a route rule to the unknown target \<open>Z\<close>, a route rule with
  an empty target and a process rule. Both route rules fire their webhook, only \<open>Z\<close>
  is selected, and nothing is created. With the selection \<open>Z\<close> then \<open>X\<close>, where
  \<open>X\<close> is configured, \<open>Z\<close> gets its event and the one folder created is the one
  drawn for \<open>X\<close>.
\<close>

theorem route_webhook_precedes_validation_witness:
  "push_serieslevel_routing_loop routing_cfg [''rz'', ''rn'', ''p''] [] [] (ex_world spool) =
     (Returned [(''Z'', ''rz'')],
      \<lparr>fs = spool, events = [],
       webhooks = [(''hook-z'', [], ''RECEPTION''), (''hook-n'', [], ''RECEPTION'')],
       uuid_count = 0\<rparr>)
   \<and> webhooks (snd (push_serieslevel_routing ex_env routing_cfg
                       [(''rz'', ''rz''), (''rn'', ''rn''), (''p'', ''p'')] [''S#a'', ''S#b'']
                       ''S'' [] (ex_world spool))) =
       [(''hook-z'', [], ''RECEPTION''), (''hook-n'', [], ''RECEPTION'')]
   \<and> fs (snd (push_serieslevel_routing ex_env routing_cfg
                 [(''rz'', ''rz''), (''rn'', ''rn''), (''p'', ''p'')] [''S#a'', ''S#b'']
                 ''S'' [] (ex_world spool))) = spool
   \<and> push_serieslevel_outgoing_loop ex_env routing_cfg False [''S#a'', ''S#b''] ''S''
       [(''Z'', ''rz''), (''X'', ''rx'')] (ex_world spool) =
       (Raised UnboundLocalError,
        \<lparr>fs = spool @ [([''out'', ''u''], Dir)],
         events = [Event ''Invalid target selected Z''],
         webhooks = [], uuid_count = 1\<rparr>)"
proof -
  let ?T = "[(''rz'', ''rz''), (''rn'', ''rn''), (''p'', ''p'')]"
  have h: "\<forall>n\<in>set (map fst ?T). map_of (rules routing_cfg) n \<noteq> None"
    by (simp add: routing_cfg_def ex_cfg_def)
  have u: "\<forall>n\<in>set (map fst ?T).
             is_series_route routing_cfg n \<longrightarrow> rule_target routing_cfg n \<notin> set (targets routing_cfg)"
    by (simp add: routing_cfg_def ex_cfg_def is_series_route_def rule_target_def mk_rule_def
        get_default_def)
  note t = route_webhook_precedes_validation[OF h, of "[]" "ex_world spool" ex_env
      "[''S#a'', ''S#b'']" "''S''" False "[(''Z'', ''rz''), (''X'', ''rx'')]" "ex_world spool"]
  have loop: "push_serieslevel_routing_loop routing_cfg [''rz'', ''rn'', ''p''] [] []
                (ex_world spool) =
     (Returned [(''Z'', ''rz'')],
      \<lparr>fs = spool, events = [],
       webhooks = [(''hook-z'', [], ''RECEPTION''), (''hook-n'', [], ''RECEPTION'')],
       uuid_count = 0\<rparr>)"
    by code_simp
  have hooks: "webhooks (ex_world spool) @ map (reception_hook routing_cfg)
                 (filter (is_series_route routing_cfg) (map fst ?T)) =
               [(''hook-z'', [], ''RECEPTION''), (''hook-n'', [], ''RECEPTION'')]"
    by code_simp
  have f: "fs (ex_world spool) = spool"
    by (simp add: ex_world_def)
  have staged: "push_serieslevel_outgoing_loop ex_env routing_cfg False [''S#a'', ''S#b''] ''S''
               (dropWhile (unknown_target routing_cfg) [(''Z'', ''rz''), (''X'', ''rx'')])
               ((ex_world spool)\<lparr>events := events (ex_world spool)
                    @ map (\<lambda>s. Event (''Invalid target selected '' @ fst s))
                        (takeWhile (unknown_target routing_cfg)
                           [(''Z'', ''rz''), (''X'', ''rx'')])\<rparr>) =
       (Raised UnboundLocalError,
        \<lparr>fs = spool @ [([''out'', ''u''], Dir)],
         events = [Event ''Invalid target selected Z''],
         webhooks = [], uuid_count = 1\<rparr>)"
    by code_simp
  from t u have "fs (snd (push_serieslevel_routing ex_env routing_cfg ?T [''S#a'', ''S#b'']
                 ''S'' [] (ex_world spool))) = fs (ex_world spool)"
    by blast
  then have A: "fs (snd (push_serieslevel_routing ex_env routing_cfg ?T [''S#a'', ''S#b'']
                 ''S'' [] (ex_world spool))) = spool"
    by (simp only: f)
  from t have "webhooks (snd (push_serieslevel_routing ex_env routing_cfg ?T
                 [''S#a'', ''S#b''] ''S'' [] (ex_world spool))) =
       webhooks (ex_world spool) @ map (reception_hook routing_cfg)
                 (filter (is_series_route routing_cfg) (map fst ?T))"
    by blast
  then have B: "webhooks (snd (push_serieslevel_routing ex_env routing_cfg ?T
                 [''S#a'', ''S#b''] ''S'' [] (ex_world spool))) =
       [(''hook-z'', [], ''RECEPTION''), (''hook-n'', [], ''RECEPTION'')]"
    by (simp only: hooks)
  from t have step: "push_serieslevel_outgoing_loop ex_env routing_cfg False
                 [''S#a'', ''S#b''] ''S'' [(''Z'', ''rz''), (''X'', ''rx'')] (ex_world spool) =
       push_serieslevel_outgoing_loop ex_env routing_cfg False [''S#a'', ''S#b''] ''S''
               (dropWhile (unknown_target routing_cfg) [(''Z'', ''rz''), (''X'', ''rx'')])
               ((ex_world spool)\<lparr>events := events (ex_world spool)
                    @ map (\<lambda>s. Event (''Invalid target selected '' @ fst s))
                        (takeWhile (unknown_target routing_cfg)
                           [(''Z'', ''rz''), (''X'', ''rx'')])\<rparr>)"
    by blast
  from step staged have C: "push_serieslevel_outgoing_loop ex_env routing_cfg False
                 [''S#a'', ''S#b''] ''S'' [(''Z'', ''rz''), (''X'', ''rx'')] (ex_world spool) =
       (Raised UnboundLocalError,
        \<lparr>fs = spool @ [([''out'', ''u''], Dir)],
         events = [Event ''Invalid target selected Z''],
         webhooks = [], uuid_count = 1\<rparr>)"
    by (rule trans)
  from loop B A C show ?thesis
    by (intro conjI)
qed

subsection \<open>The discard path\<close>

lemma split_slash_not_Nil [simp]: "split_slash s \<noteq> []"
  by (induction s) (auto split: list.splits)

lemma split_slash_append:
  "split_slash (a @ CHR ''/'' # b) = split_slash a @ split_slash b"
  by (induction a) (auto split: list.splits)

lemma split_slash_name: "CHR ''/'' \<notin> set s \<Longrightarrow> split_slash s = [s]"
  by (induction s) auto

lemma components_append:
  "components (a @ CHR ''/'' # b) = components a @ components b"
  by (simp add: components_def split_slash_append)

lemma components_Nil [simp]: "components [] = []"
  by (simp add: components_def)

lemma components_name:
  "CHR ''/'' \<notin> set s \<Longrightarrow> s \<noteq> [] \<Longrightarrow> components s = [s]"
  by (simp add: components_def split_slash_name)

lemma components_trailing [simp]: "components (d @ ''/'') = components d"
  using components_append[of d "[]"] by simp

lemma components_entry:
  "CHR ''/'' \<notin> set e \<Longrightarrow> CHR ''/'' \<notin> set x \<Longrightarrow> x \<noteq> [] \<Longrightarrow>
   components ((d @ ''/'') @ e @ x) = components d @ [e @ x]"
  using components_append[of d "e @ x"] components_name[of "e @ x"] by simp




lemma set_node_fields [simp]:
  "webhooks (set_node p n w) = webhooks w" "events (set_node p n w) = events w"
  "uuid_count (set_node p n w) = uuid_count w"
  by (simp_all add: set_node_def)

lemma del_node_fields [simp]:
  "webhooks (del_node p w) = webhooks w" "events (del_node p w) = events w"
  "uuid_count (del_node p w) = uuid_count w"
  by (simp_all add: del_node_def)

lemma send_event_fields [simp]:
  "webhooks (send_event msg w) = webhooks w" "fs (send_event msg w) = fs w"
  "uuid_count (send_event msg w) = uuid_count w"
  "events (send_event msg w) = events w @ [Event msg]"
  by (simp_all add: send_event_def)

lemma send_series_event_fields [simp]:
  "webhooks (send_series_event k u n t i w) = webhooks w"
  "fs (send_series_event k u n t i w) = fs w"
  "uuid_count (send_series_event k u n t i w) = uuid_count w"
  "events (send_series_event k u n t i w) = events w @ [SeriesEvent k u n t i]"
  by (simp_all add: send_series_event_def)

lemma untouched_refl [simp]: "untouched K w w"
  by (simp add: untouched_def)



lemma untouched_send_event [simp]: "untouched K w (send_event msg w)"
  by (simp add: untouched_def)

lemma untouched_send_series_event [simp]: "untouched K w (send_series_event k u n t i w)"
  by (simp add: untouched_def)












lemma pair_keys_alt:
  "pair_keys d es = {d @ [e @ x] |e x. e \<in> set es \<and> (x = DCM \<or> x = TAGS)}"
  by (auto simp: pair_keys_def)

lemma pair_keys_Nil [simp]: "pair_keys d [] = {}"
  by (simp add: pair_keys_alt)


lemma dcm_neq_tags [simp]: "e @ ''.dcm'' \<noteq> e' @ ''.tags''"
proof
  assume "e @ ''.dcm'' = e' @ ''.tags''"
  then have "last (e @ ''.dcm'') = last (e' @ ''.tags'')" by (rule arg_cong)
  then show False by simp
qed

lemma tags_neq_dcm [simp]: "e @ ''.tags'' \<noteq> e' @ ''.dcm''"
  using dcm_neq_tags[of e' e] by (rule not_sym)

lemma pair_keys_other [simp]: "d \<noteq> d' \<Longrightarrow> d @ [a] \<notin> pair_keys d' es"
  by (auto simp: pair_keys_alt)

lemma pair_keys_dcm [simp]: "d @ [e @ ''.dcm''] \<in> pair_keys d es \<longleftrightarrow> e \<in> set es"
  by (auto simp: pair_keys_alt)

lemma pair_keys_tags [simp]: "d @ [e @ ''.tags''] \<in> pair_keys d es \<longleftrightarrow> e \<in> set es"
  by (auto simp: pair_keys_alt)

lemma components_dcm [simp]:
  "CHR ''/'' \<notin> set e \<Longrightarrow> components (d @ CHR ''/'' # e @ ''.dcm'') = components d @ [e @ ''.dcm'']"
  using components_append[of d "e @ ''.dcm''"] components_name[of "e @ ''.dcm''"] by simp

lemma components_tags [simp]:
  "CHR ''/'' \<notin> set e \<Longrightarrow> components (d @ CHR ''/'' # e @ ''.tags'') = components d @ [e @ ''.tags'']"
  using components_append[of d "e @ ''.tags''"] components_name[of "e @ ''.tags''"] by simp








subsection \<open>Inputs on which the code leaves its specification\<close>

text \<open>
  Claim C1. One triggered rule, a series-level route rule to the configured target
  \<open>X\<close>: the folder \<open>out/u\<close> is created and the lock path of line 403 raises; the
  pairs are still in the incoming folder and in no destination. The same with a process
  rule behind the route rule: no destination receives a copy, the process rule is never
  dispatched and the originals are not removed.
\<close>

theorem series_route_transfers_nothing:
  "route_series ex_env (ex_cfg [(''rx'', mk_rule ''yes'' ''route'' ''series'' ''X'')]) ''S''
     (ex_world spool) =
     (Raised UnboundLocalError,
      \<lparr>fs = spool @ [([''in'', ''S.lock''], File), ([''out'', ''u''], Dir)],
       events = [RegisterSeries [(''StudyInstanceUID'', ''Y'')],
                 SeriesEvent S_REGISTERED ''S'' 2 [] []],
       webhooks = [(''hook'', [], ''RECEPTION'')],
       uuid_count = 1\<rparr>)
   \<and> route_series ex_env
       (ex_cfg [(''rx'', mk_rule ''yes'' ''route'' ''series'' ''X''),
                (''p'', mk_rule ''yes'' ''process'' ''series'' [])]) ''S'' (ex_world spool) =
     (Raised UnboundLocalError,
      \<lparr>fs = spool @ [([''in'', ''S.lock''], File), ([''out'', ''u''], Dir)],
       events = [RegisterSeries [(''StudyInstanceUID'', ''Y'')],
                 SeriesEvent S_REGISTERED ''S'' 2 [] []],
       webhooks = [(''hook'', [], ''RECEPTION'')],
       uuid_count = 1\<rparr>)"
  by code_simp

text \<open>
  Claim C4. One triggered rule, a series-level notification rule: the webhook is fired and
  then \<open>len(triggered_rules==1)\<close> raises \<open>TypeError\<close>; the originals are still
  in the incoming folder.
\<close>

theorem notification_only_raises:
  "push_serieslevel_notification
     (ex_cfg [(''note'', mk_rule ''yes'' ''notification'' ''series'' [])])
     [(''note'', ''note'')] [''S#a''] ''S'' [] (ex_world spool) =
   (Raised TypeError,
    \<lparr>fs = spool, events = [], webhooks = [(''hook'', [], ''RECEPTION'')], uuid_count = 0\<rparr>)"
  by code_simp

text \<open>
  Claim C5. No tag sidecar of the series \<open>T\<close> is in the incoming folder: after the
  lock has been taken, \<open>fileList[0]\<close> raises \<open>IndexError\<close>.
\<close>

theorem empty_series_raises:
  "route_series ex_env (ex_cfg [(''p'', mk_rule ''yes'' ''process'' ''series'' [])]) ''T''
     (ex_world spool) =
   (Raised IndexError,
    \<lparr>fs = spool @ [([''in'', ''T.lock''], File)], events = [], webhooks = [], uuid_count = 0\<rparr>)"
  by code_simp

text \<open>
  Claim C6. One triggered study-level rule \<open>R\<close> and the study \<open>Y\<close>: the folder
  \<open>Y#R\<close> is created beside the spool folders, not inside a studies folder, and the
  lock path raises; no descriptor is written and no file is transferred.
\<close>

theorem studylevel_raises:
  "push_series_studylevel (ex_cfg [(''R'', mk_rule ''yes'' ''route'' ''study'' ''X'')])
     [(''R'', ''R'')] [''S#a''] ''S'' [(''StudyInstanceUID'', ''Y'')] (ex_world spool) =
   (Raised UnboundLocalError,
    \<lparr>fs = spool @ [([''Y#R''], Dir)], events = [], webhooks = [], uuid_count = 0\<rparr>)"
  by code_simp

text \<open>
  Claim C8. Three triggered rules: a route rule to the unknown target \<open>Z\<close>, a route
  rule to the configured target \<open>X\<close> and a process rule. \<open>Z\<close> is passed over with
  its event and the folder for \<open>X\<close> is created; then the lock path of line 403 raises
  inside the \<open>try\<close> and the handler of line 407 formats the unassigned
  \<open>lock_file\<close>. \<open>UnboundLocalError\<close> leaves \<open>push_serieslevel_outgoing\<close>,
  \<open>push_series_serieslevel\<close> and \<open>route_series\<close>: no file reaches the folder of
  \<open>X\<close>, the process rule is never dispatched, the originals and the series lock stay
  in the incoming folder.
\<close>

theorem unknown_then_configured_target_raises:
  "route_series ex_env mixed_cfg ''S'' (ex_world spool) =
     (Raised UnboundLocalError,
      \<lparr>fs = spool @ [([''in'', ''S.lock''], File), ([''out'', ''u''], Dir)],
       events = [RegisterSeries [(''StudyInstanceUID'', ''Y'')],
                 SeriesEvent S_REGISTERED ''S'' 2 [] [],
                 Event ''Invalid target selected Z''],
       webhooks = [(''hook-z'', [], ''RECEPTION''), (''hook-x'', [], ''RECEPTION'')],
       uuid_count = 1\<rparr>)"
  by code_simp

text \<open>
  Claim C9. One error marker with its payload in the incoming folder: the lock path of
  line 501 raises \<open>TypeError\<close> before anything is locked, moved or reported.
\<close>

theorem error_sweeper_raises:
  "route_error_files (ex_cfg [])
     (ex_world (spool @ [([''in'', ''x.dcm.error''], File), ([''in'', ''x.dcm''], File)])) =
   (Raised TypeError,
    ex_world (spool @ [([''in'', ''x.dcm.error''], File), ([''in'', ''x.dcm''], File)]))"
  by code_simp

end
